theory Spec2Isabelle
  imports Complex_Main "HOL-Library.AList" "HOL-Library.Log_Nat"
begin

text \<open>
  The wholesale ledger of the repository: the tables of \<^verbatim>\<open>shared/schema.ts\<close>, the
  in-memory store \<^verbatim>\<open>MemStorage\<close> of \<^verbatim>\<open>server/storage.ts\<close> and the handlers of
  \<^verbatim>\<open>server/routes.ts\<close> that create a product, record a sale, update a stock and close
  the day. Requests are handled one at a time.
\<close>

section \<open>JavaScript values\<close>

subsection \<open>Strings\<close>

text \<open>A JavaScript string is the list of its UTF-16 code units; \<open>str\<close> is an ASCII
  literal.\<close>

type_synonym jsstring = "nat list"

definition str :: "string \<Rightarrow> jsstring" where
  "str s = map of_char s"

subsection \<open>Numbers\<close>

text \<open>
  The ledger keeps its decimal columns as JavaScript strings and computes on them with
  \<^verbatim>\<open>parseFloat\<close>, that is on IEEE 754 binary64 numbers. A number is \<open>NaN\<close>, an infinity
  or a finite double, given by its exact rational value. The sign of zero is not kept: no
  operation of the ledger depends on it.
\<close>

datatype jsnum = NaN | PInf | NInf | Fin rat

definition pow2 :: "int \<Rightarrow> rat" where
  "pow2 e = (if 0 \<le> e then 2 ^ nat e else 1 / 2 ^ nat (- e))"

text \<open>The binary exponent of a positive rational \<open>a\<close>: the integer \<open>e\<close> such that \<open>a\<close>
  lies from \<open>pow2 e\<close> up to, and not at, \<open>pow2 (e + 1)\<close>.\<close>

definition ilog2 :: "rat \<Rightarrow> int" where
  "ilog2 a =
     (if 1 \<le> a then bitlen \<lfloor>a\<rfloor> - 1
      else (let b = bitlen \<lfloor>1 / a\<rfloor> in if pow2 (1 - b) \<le> a then 1 - b else - b))"

definition round_half_even :: "rat \<Rightarrow> int" where
  "round_half_even x =
     (let n = \<lfloor>x\<rfloor>; f = x - of_int n
      in if f < 1 / 2 then n else if 1 / 2 < f then n + 1 else if even n then n else n + 1)"

text \<open>Rounding of an exact value to the nearest double, a tie to the even significand: a
  significand of 53 bits, the least exponent -1074 of the subnormal numbers, and an
  infinity from \<open>pow2 1024\<close> on.\<close>

definition rd :: "rat \<Rightarrow> jsnum" where
  "rd x =
     (if x = 0 then Fin 0
      else
        (let a = \<bar>x\<bar>;
             k = max (ilog2 a - 52) (- 1074);
             y = of_int (round_half_even (a / pow2 k)) * pow2 k
         in if pow2 1024 \<le> y then (if 0 < x then PInf else NInf)
            else Fin (if 0 < x then y else - y)))"

text \<open>The arithmetic of doubles: the exact result, rounded; the infinities and \<open>NaN\<close> as
  IEEE 754 has them.\<close>

fun jsadd :: "jsnum \<Rightarrow> jsnum \<Rightarrow> jsnum" where
  "jsadd NaN _ = NaN"
| "jsadd _ NaN = NaN"
| "jsadd (Fin a) (Fin b) = rd (a + b)"
| "jsadd PInf NInf = NaN"
| "jsadd NInf PInf = NaN"
| "jsadd PInf _ = PInf"
| "jsadd _ PInf = PInf"
| "jsadd NInf _ = NInf"
| "jsadd _ NInf = NInf"

fun jssub :: "jsnum \<Rightarrow> jsnum \<Rightarrow> jsnum" where
  "jssub NaN _ = NaN"
| "jssub _ NaN = NaN"
| "jssub (Fin a) (Fin b) = rd (a - b)"
| "jssub PInf PInf = NaN"
| "jssub NInf NInf = NaN"
| "jssub PInf _ = PInf"
| "jssub _ NInf = PInf"
| "jssub NInf _ = NInf"
| "jssub _ PInf = NInf"

fun jsmul :: "jsnum \<Rightarrow> jsnum \<Rightarrow> jsnum" where
  "jsmul NaN _ = NaN"
| "jsmul _ NaN = NaN"
| "jsmul (Fin a) (Fin b) = rd (a * b)"
| "jsmul (Fin a) PInf = (if a = 0 then NaN else if 0 < a then PInf else NInf)"
| "jsmul (Fin a) NInf = (if a = 0 then NaN else if 0 < a then NInf else PInf)"
| "jsmul PInf (Fin b) = (if b = 0 then NaN else if 0 < b then PInf else NInf)"
| "jsmul NInf (Fin b) = (if b = 0 then NaN else if 0 < b then NInf else PInf)"
| "jsmul PInf PInf = PInf"
| "jsmul NInf NInf = PInf"
| "jsmul PInf NInf = NInf"
| "jsmul NInf PInf = NInf"

text \<open>Division is only reached with a positive divisor (the margin of the dashboard); a
  zero divisor is taken as positive.\<close>

fun jsdiv :: "jsnum \<Rightarrow> jsnum \<Rightarrow> jsnum" where
  "jsdiv NaN _ = NaN"
| "jsdiv _ NaN = NaN"
| "jsdiv (Fin a) (Fin b) =
     (if b = 0 then (if a = 0 then NaN else if 0 < a then PInf else NInf) else rd (a / b))"
| "jsdiv (Fin a) _ = Fin 0"
| "jsdiv PInf (Fin b) = (if 0 \<le> b then PInf else NInf)"
| "jsdiv NInf (Fin b) = (if 0 \<le> b then NInf else PInf)"
| "jsdiv _ _ = NaN"

text \<open>\<^verbatim>\<open>a < b\<close>: every comparison with \<open>NaN\<close> is false.\<close>

fun jslt :: "jsnum \<Rightarrow> jsnum \<Rightarrow> bool" where
  "jslt NaN _ = False"
| "jslt _ NaN = False"
| "jslt (Fin a) (Fin b) = (a < b)"
| "jslt _ NInf = False"
| "jslt PInf _ = False"
| "jslt _ _ = True"

fun isNaN :: "jsnum \<Rightarrow> bool" where
  "isNaN NaN = True"
| "isNaN _ = False"

fun isFinite :: "jsnum \<Rightarrow> bool" where
  "isFinite (Fin _) = True"
| "isFinite _ = False"

text \<open>
  A number that the code prints, with \<^verbatim>\<open>x.toString()\<close> or \<^verbatim>\<open>x.toFixed(d)\<close>, is kept as
  the number that \<^verbatim>\<open>parseFloat\<close> reads back from the text. \<^verbatim>\<open>x.toString()\<close> reads back as
  \<open>x\<close>. \<^verbatim>\<open>x.toFixed(d)\<close> prints the decimal with \<open>d\<close> digits nearest to the exact value of
  \<open>x\<close>, a tie away from zero, which reads back rounded to a double; from ten to the power 21 on, and
  for \<open>NaN\<close> and the infinities, it prints as \<^verbatim>\<open>x.toString()\<close> does.
\<close>

definition round_half_away :: "rat \<Rightarrow> int" where
  "round_half_away x = (if 0 \<le> x then \<lfloor>x + 1 / 2\<rfloor> else - \<lfloor>- x + 1 / 2\<rfloor>)"

fun toFixed :: "nat \<Rightarrow> jsnum \<Rightarrow> jsnum" where
  "toFixed d (Fin x) =
     (if 10 ^ 21 \<le> \<bar>x\<bar> then rd x else rd (of_int (round_half_away (x * 10 ^ d)) / 10 ^ d))"
| "toFixed d v = v"

subsection \<open>parseFloat\<close>

text \<open>White space and line terminators: TAB, LF, VT, FF, CR, SP, NBSP, the other space
  separators of Unicode, LS, PS and the byte order mark.\<close>

definition is_space :: "nat \<Rightarrow> bool" where
  "is_space c =
     (c \<in> set [9, 10, 11, 12, 13, 32, 160, 5760, 8232, 8233, 8239, 8287, 12288, 65279]
      \<or> (8192 \<le> c \<and> c \<le> 8202))"

definition is_digit :: "nat \<Rightarrow> bool" where
  "is_digit c = (48 \<le> c \<and> c \<le> 57)"

definition digit_val :: "nat \<Rightarrow> nat" where
  "digit_val c = c - 48"

definition digits_val :: "jsstring \<Rightarrow> nat" where
  "digits_val ds = foldl (\<lambda>n c. 10 * n + digit_val c) 0 ds"

text \<open>The optional exponent part: \<^verbatim>\<open>e\<close> or \<^verbatim>\<open>E\<close>, an optional sign and at least one
  digit; anything else is no exponent.\<close>

definition exponent_part :: "jsstring \<Rightarrow> int" where
  "exponent_part r =
     (case r of
        [] \<Rightarrow> 0
      | c # r1 \<Rightarrow>
          if c = of_char CHR ''e'' \<or> c = of_char CHR ''E'' then
            (case r1 of
               [] \<Rightarrow> 0
             | d # r2 \<Rightarrow>
                 if d = of_char CHR ''-'' then - int (digits_val (takeWhile is_digit r2))
                 else if d = of_char CHR ''+'' then int (digits_val (takeWhile is_digit r2))
                 else int (digits_val (takeWhile is_digit r1)))
          else 0)"

definition pow10 :: "int \<Rightarrow> rat" where
  "pow10 e = (if 0 \<le> e then 10 ^ nat e else 1 / 10 ^ nat (- e))"

text \<open>What \<^verbatim>\<open>parseFloat\<close> finds at the start of a string, after the white space: no
  literal, a signed \<^verbatim>\<open>Infinity\<close> (positive when the flag holds), or a decimal literal
  (sign, digits, fraction, exponent) with its exact value. The longest prefix that is a
  literal counts.\<close>

datatype numeric_literal = NoLiteral | InfLiteral bool | Decimal rat

definition strDecimalLiteral :: "jsstring \<Rightarrow> numeric_literal" where
  "strDecimalLiteral s =
     (let t = dropWhile is_space s;
          neg = (t \<noteq> [] \<and> hd t = of_char CHR ''-'');
          u = (if t \<noteq> [] \<and> (hd t = of_char CHR ''-'' \<or> hd t = of_char CHR ''+'')
               then tl t else t);
          ip = takeWhile is_digit u;
          r1 = dropWhile is_digit u;
          dot = (r1 \<noteq> [] \<and> hd r1 = of_char CHR ''.'');
          fp = (if dot then takeWhile is_digit (tl r1) else []);
          r2 = (if dot then dropWhile is_digit (tl r1) else r1)
      in if take 8 u = str ''Infinity'' then InfLiteral (\<not> neg)
         else if ip = [] \<and> fp = [] then NoLiteral
         else Decimal ((if neg then - 1 else 1) * of_nat (digits_val (ip @ fp))
                       / 10 ^ length fp * pow10 (exponent_part r2)))"

text \<open>\<^verbatim>\<open>parseFloat\<close> of a string: the literal at its start, rounded to a double.\<close>

definition parseFloat_str :: "jsstring \<Rightarrow> jsnum" where
  "parseFloat_str s =
     (case strDecimalLiteral s of
        NoLiteral \<Rightarrow> NaN
      | InfLiteral pos \<Rightarrow> (if pos then PInf else NInf)
      | Decimal x \<Rightarrow> rd x)"

text \<open>The values of a JSON request body; \<open>JUndefined\<close> is an absent field, \<open>JObj\<close> any
  object. A number of the body is a double: where it is read, \<open>Fin x\<close> stands for the double
  nearest to \<open>x\<close>.\<close>

datatype json = JUndefined | JNull | JBool bool | JNum jsnum | JStr jsstring
  | JArr "json list" | JObj

text \<open>\<^verbatim>\<open>parseFloat(v)\<close> converts \<open>v\<close> to a string first. A number prints as a text that
  reads back as the number; \<^verbatim>\<open>"undefined"\<close>, \<^verbatim>\<open>"null"\<close>, \<^verbatim>\<open>"true"\<close>, \<^verbatim>\<open>"false"\<close> and
  \<^verbatim>\<open>"[object Object]"\<close> have no literal at their start; an array prints its elements
  with commas between them, so that the literal at the start is that of the first
  element.\<close>

fun parseFloat :: "json \<Rightarrow> jsnum" where
  "parseFloat (JStr s) = parseFloat_str s"
| "parseFloat (JNum (Fin x)) = rd x"
| "parseFloat (JNum x) = x"
| "parseFloat (JArr (v # vs)) = parseFloat v"
| "parseFloat _ = NaN"

text \<open>Truthiness, as \<^verbatim>\<open>!v\<close> and \<^verbatim>\<open>if (v)\<close> test it: a number is falsy when it is \<open>NaN\<close>
  or zero, a string when it is empty.\<close>

fun truthy :: "json \<Rightarrow> bool" where
  "truthy JUndefined = False"
| "truthy JNull = False"
| "truthy (JBool b) = b"
| "truthy (JNum x) = (parseFloat (JNum x) \<noteq> NaN \<and> parseFloat (JNum x) \<noteq> Fin 0)"
| "truthy (JStr s) = (s \<noteq> [])"
| "truthy (JArr vs) = True"
| "truthy JObj = True"

subsection \<open>Dates\<close>

text \<open>A \<^verbatim>\<open>Date\<close> is its number of milliseconds since the epoch. The text
  \<^verbatim>\<open>d.toISOString().split('T')[0]\<close> is the UTC calendar day; it is identified with the
  day number, which orders as the \<^verbatim>\<open>YYYY-MM-DD\<close> strings do. The local zone is a fixed
  offset \<open>tz\<close> in minutes east of UTC (no daylight saving), so that
  \<^verbatim>\<open>d.setDate(d.getDate() - n)\<close> moves \<open>d\<close> back by \<open>n\<close> whole days.\<close>

type_synonym jsdate = int

definition isoDay :: "jsdate \<Rightarrow> int" where
  "isoDay d = d div 86400000"

definition getHours :: "int \<Rightarrow> jsdate \<Rightarrow> int" where
  "getHours tz d = ((d + tz * 60000) div 3600000) mod 24"

definition subDays :: "jsdate \<Rightarrow> int \<Rightarrow> jsdate" where
  "subDays d n = d - n * 86400000"

text \<open>The calendar day of the local zone: the day that the hour of \<open>getHours\<close> belongs
  to.\<close>

definition localDay :: "int \<Rightarrow> jsdate \<Rightarrow> int" where
  "localDay tz d = (d + tz * 60000) div 86400000"

section \<open>shared/schema.ts\<close>

text \<open>The insert types are the rows without the generated columns; a row extends its
  insert type as the object spread \<^verbatim>\<open>{...insert, id, createdAt}\<close> does. Decimal columns
  hold the value the caller sent.\<close>

record insertProduct =
  name :: jsstring
  purchasePrice :: json
  sellingPrice :: json
  stock :: json

record product = insertProduct +
  product_id :: jsstring
  createdAt :: jsdate

record insertSale =
  productId :: jsstring
  quantity :: json
  pricePerKg :: json
  totalAmount :: json
  profit :: json

record sale = insertSale +
  sale_id :: jsstring
  saleDate :: jsdate

record insertDailyReport =
  date :: int
  totalSales :: json
  totalProfit :: json
  totalCost :: json
  isSubmitted :: bool

record dailyReport = insertDailyReport +
  report_id :: jsstring
  submittedAt :: "jsdate option"

text \<open>\<^verbatim>\<open>Partial<DailyReport>\<close>: every field may be absent.\<close>

record dailyReportUpdates =
  u_id :: "jsstring option"
  u_date :: "int option"
  u_totalSales :: "json option"
  u_totalProfit :: "json option"
  u_totalCost :: "json option"
  u_isSubmitted :: "bool option"
  u_submittedAt :: "jsdate option option"

record dashboardStats =
  dailyProfit :: jsnum
  dailySales :: jsnum
  dailyCost :: jsnum
  dailyMargin :: jsnum
  weeklyProfit :: jsnum
  productCount :: nat

text \<open>A request body is a JSON object: the list of its fields, whose names are distinct,
  read with \<open>field\<close>.\<close>

type_synonym body = "(string \<times> json) list"

definition field :: "body \<Rightarrow> string \<Rightarrow> json" where
  "field b k = (case map_of b k of None \<Rightarrow> JUndefined | Some v \<Rightarrow> v)"

text \<open>The schemas that \<^verbatim>\<open>createInsertSchema\<close> derives from the tables check types only:
  a \<^verbatim>\<open>text\<close>, \<^verbatim>\<open>varchar\<close> or \<^verbatim>\<open>decimal\<close> column must be a string, and a column with a
  default (\<open>stock\<close>) may be absent. \<open>None\<close> is the \<^verbatim>\<open>ZodError\<close>.\<close>

fun z_string :: "json \<Rightarrow> bool" where
  "z_string (JStr _) = True"
| "z_string _ = False"

definition z_string_optional :: "json \<Rightarrow> bool" where
  "z_string_optional v = (v = JUndefined \<or> z_string v)"

fun the_string :: "json \<Rightarrow> jsstring" where
  "the_string (JStr s) = s"
| "the_string _ = []"

definition insertProductSchema :: "body \<Rightarrow> insertProduct option" where
  "insertProductSchema b =
     (if z_string (field b ''name'') \<and> z_string (field b ''purchasePrice'')
         \<and> z_string (field b ''sellingPrice'') \<and> z_string_optional (field b ''stock'')
      then Some \<lparr>name = the_string (field b ''name''),
                 purchasePrice = field b ''purchasePrice'',
                 sellingPrice = field b ''sellingPrice'',
                 stock = field b ''stock''\<rparr>
      else None)"

definition insertSaleSchema :: "body \<Rightarrow> insertSale option" where
  "insertSaleSchema b =
     (if z_string (field b ''productId'') \<and> z_string (field b ''quantity'')
         \<and> z_string (field b ''pricePerKg'') \<and> z_string (field b ''totalAmount'')
         \<and> z_string (field b ''profit'')
      then Some \<lparr>productId = the_string (field b ''productId''),
                 quantity = field b ''quantity'',
                 pricePerKg = field b ''pricePerKg'',
                 totalAmount = field b ''totalAmount'',
                 profit = field b ''profit''\<rparr>
      else None)"

section \<open>server/storage.ts: MemStorage\<close>

text \<open>A JavaScript \<^verbatim>\<open>Map\<close> keeps its entries in insertion order, and \<^verbatim>\<open>set\<close> on a key
  that is present replaces the value in place: an association list with
  \<^const>\<open>AList.update\<close>. The identifier that \<^verbatim>\<open>randomUUID()\<close> returns and the instant
  that \<^verbatim>\<open>new Date()\<close> returns are arguments.\<close>

record storage =
  products :: "(jsstring \<times> product) list"
  sales :: "(jsstring \<times> sale) list"
  dailyReports :: "(int \<times> dailyReport) list"

definition MemStorage :: storage where
  "MemStorage = \<lparr>products = [], sales = [], dailyReports = []\<rparr>"

definition getProduct :: "storage \<Rightarrow> jsstring \<Rightarrow> product option" where
  "getProduct s i = map_of (products s) i"

definition createProduct :: "storage \<Rightarrow> jsstring \<Rightarrow> jsdate \<Rightarrow> insertProduct \<Rightarrow> product \<times> storage" where
  "createProduct s uid now ins =
     (let p = \<lparr>name = name ins, purchasePrice = purchasePrice ins,
                sellingPrice = sellingPrice ins, stock = stock ins,
                product_id = uid, createdAt = now\<rparr>
      in (p, s\<lparr>products := AList.update uid p (products s)\<rparr>))"

definition updateProductStock :: "storage \<Rightarrow> jsstring \<Rightarrow> json \<Rightarrow> storage" where
  "updateProductStock s i newStock =
     (case map_of (products s) i of
        Some p \<Rightarrow> s\<lparr>products := AList.update i (p\<lparr>stock := newStock\<rparr>) (products s)\<rparr>
      | None \<Rightarrow> s)"

definition getSalesByDate :: "storage \<Rightarrow> int \<Rightarrow> sale list" where
  "getSalesByDate s d = filter (\<lambda>x. isoDay (saleDate x) = d) (map snd (sales s))"

definition getSalesByDateRange :: "storage \<Rightarrow> int \<Rightarrow> int \<Rightarrow> sale list" where
  "getSalesByDateRange s startDate endDate =
     filter (\<lambda>x. startDate \<le> isoDay (saleDate x) \<and> isoDay (saleDate x) \<le> endDate)
       (map snd (sales s))"

definition createSale :: "storage \<Rightarrow> jsstring \<Rightarrow> jsdate \<Rightarrow> insertSale \<Rightarrow> sale \<times> storage" where
  "createSale s uid now ins =
     (let x = \<lparr>productId = productId ins, quantity = quantity ins,
                pricePerKg = pricePerKg ins, totalAmount = totalAmount ins,
                profit = profit ins, sale_id = uid, saleDate = now\<rparr>;
          s1 = s\<lparr>sales := AList.update uid x (sales s)\<rparr>
      in case map_of (products s1) (productId ins) of
           Some p \<Rightarrow>
             (x, updateProductStock s1 (productId ins)
                   (JNum (jssub (parseFloat (stock p)) (parseFloat (quantity ins)))))
         | None \<Rightarrow> (x, s1))"

definition getDailyReport :: "storage \<Rightarrow> int \<Rightarrow> dailyReport option" where
  "getDailyReport s d = map_of (dailyReports s) d"

definition createDailyReport ::
    "storage \<Rightarrow> jsstring \<Rightarrow> jsdate \<Rightarrow> insertDailyReport \<Rightarrow> dailyReport \<times> storage" where
  "createDailyReport s uid now ins =
     (let r = \<lparr>date = date ins, totalSales = totalSales ins, totalProfit = totalProfit ins,
                totalCost = totalCost ins, isSubmitted = isSubmitted ins,
                report_id = uid,
                submittedAt = (if isSubmitted ins then Some now else None)\<rparr>
      in (r, s\<lparr>dailyReports := AList.update (date ins) r (dailyReports s)\<rparr>))"

text \<open>\<^verbatim>\<open>Object.assign(report, updates)\<close> overwrites the fields that \<open>updates\<close> has.\<close>

definition assign :: "dailyReport \<Rightarrow> dailyReportUpdates \<Rightarrow> dailyReport" where
  "assign r u =
     \<lparr>date = (case u_date u of Some v \<Rightarrow> v | None \<Rightarrow> date r),
      totalSales = (case u_totalSales u of Some v \<Rightarrow> v | None \<Rightarrow> totalSales r),
      totalProfit = (case u_totalProfit u of Some v \<Rightarrow> v | None \<Rightarrow> totalProfit r),
      totalCost = (case u_totalCost u of Some v \<Rightarrow> v | None \<Rightarrow> totalCost r),
      isSubmitted = (case u_isSubmitted u of Some v \<Rightarrow> v | None \<Rightarrow> isSubmitted r),
      report_id = (case u_id u of Some v \<Rightarrow> v | None \<Rightarrow> report_id r),
      submittedAt = (case u_submittedAt u of Some v \<Rightarrow> v | None \<Rightarrow> submittedAt r)\<rparr>"

definition updateDailyReport ::
    "storage \<Rightarrow> jsdate \<Rightarrow> int \<Rightarrow> dailyReportUpdates \<Rightarrow> storage" where
  "updateDailyReport s now d updates =
     (case map_of (dailyReports s) d of
        Some r \<Rightarrow>
          (let updates' = (if u_isSubmitted updates = Some True \<and> \<not> isSubmitted r
                           then updates\<lparr>u_submittedAt := Some (Some now)\<rparr> else updates)
           in s\<lparr>dailyReports := AList.update d (assign r updates') (dailyReports s)\<rparr>)
      | None \<Rightarrow> s)"

definition sumProfit :: "sale list \<Rightarrow> jsnum" where
  "sumProfit xs = foldl (\<lambda>sum x. jsadd sum (parseFloat (profit x))) (Fin 0) xs"

definition sumTotalAmount :: "sale list \<Rightarrow> jsnum" where
  "sumTotalAmount xs = foldl (\<lambda>sum x. jsadd sum (parseFloat (totalAmount x))) (Fin 0) xs"

definition getDashboardStats :: "storage \<Rightarrow> jsdate \<Rightarrow> dashboardStats" where
  "getDashboardStats s now =
     (let today = isoDay now;
          todaySales = getSalesByDate s today;
          dProfit = sumProfit todaySales;
          dSales = sumTotalAmount todaySales;
          dCost = jssub dSales dProfit;
          dMargin = (if jslt (Fin 0) dSales then jsmul (jsdiv dProfit dSales) (Fin 100) else Fin 0);
          weekAgo = subDays now 7;
          weeklyStartDate = isoDay weekAgo;
          weeklySales = getSalesByDateRange s weeklyStartDate today;
          wProfit = sumProfit weeklySales
      in \<lparr>dailyProfit = toFixed 2 dProfit, dailySales = toFixed 2 dSales,
          dailyCost = toFixed 2 dCost, dailyMargin = toFixed 1 dMargin,
          weeklyProfit = toFixed 2 wProfit, productCount = length (products s)\<rparr>)"

section \<open>server/routes.ts\<close>

text \<open>A handler returns its response and the store it leaves. The error responses:
  \<open>ValidationError\<close> is status 400 on a \<^verbatim>\<open>ZodError\<close> (\<^verbatim>\<open>Invalid product data\<close>,
  \<^verbatim>\<open>Invalid sale data\<close>), \<open>NotFound\<close> is 404 \<^verbatim>\<open>Product not found\<close>,
  \<open>InsufficientStock\<close> is 400 \<^verbatim>\<open>Insufficient stock\<close>, \<open>InvalidStockAmount\<close> is 400
  \<^verbatim>\<open>Valid stock amount is required\<close>, and \<open>EarlySubmission\<close> is 400
  \<^verbatim>\<open>Daily report can only be submitted after 6:00 PM\<close>. The clock is read once for
  a request.\<close>

datatype error = ValidationError | NotFound | InsufficientStock | InvalidStockAmount
  | EarlySubmission

text \<open>\<^verbatim>\<open>POST /api/products\<close>\<close>

definition post_api_products ::
    "storage \<Rightarrow> jsstring \<Rightarrow> jsdate \<Rightarrow> body \<Rightarrow> (error + product) \<times> storage" where
  "post_api_products s uid now b =
     (case insertProductSchema b of
        None \<Rightarrow> (Inl ValidationError, s)
      | Some productData \<Rightarrow>
          (let (p, s') = createProduct s uid now productData in (Inr p, s')))"

text \<open>\<^verbatim>\<open>POST /api/sales\<close>\<close>

definition post_api_sales ::
    "storage \<Rightarrow> jsstring \<Rightarrow> jsdate \<Rightarrow> body \<Rightarrow> (error + sale) \<times> storage" where
  "post_api_sales s uid now b =
     (case insertSaleSchema b of
        None \<Rightarrow> (Inl ValidationError, s)
      | Some saleData \<Rightarrow>
          (case getProduct s (productId saleData) of
             None \<Rightarrow> (Inl NotFound, s)
           | Some p \<Rightarrow>
               if jslt (parseFloat (stock p)) (parseFloat (quantity saleData))
               then (Inl InsufficientStock, s)
               else (let (x, s') = createSale s uid now saleData in (Inr x, s'))))"

text \<open>\<^verbatim>\<open>PATCH /api/products/:id/stock\<close>\<close>

definition patch_api_products_stock ::
    "storage \<Rightarrow> jsstring \<Rightarrow> body \<Rightarrow> (error + unit) \<times> storage" where
  "patch_api_products_stock s i b =
     (let newStock = field b ''newStock''
      in if \<not> truthy newStock \<or> isNaN (parseFloat newStock)
         then (Inl InvalidStockAmount, s)
         else (Inr (), updateProductStock s i newStock))"

text \<open>\<^verbatim>\<open>POST /api/reports/daily/submit\<close>; the answer carries the report when one is
  created.\<close>

definition post_api_reports_daily_submit ::
    "int \<Rightarrow> storage \<Rightarrow> jsstring \<Rightarrow> jsdate \<Rightarrow> (error + dailyReport option) \<times> storage" where
  "post_api_reports_daily_submit tz s uid now =
     (let today = isoDay now;
          currentHour = getHours tz now
      in if currentHour < 18 then (Inl EarlySubmission, s)
         else
           (let todaySales = getSalesByDate s today;
                tSales = sumTotalAmount todaySales;
                tProfit = sumProfit todaySales;
                tCost = jssub tSales tProfit
            in case getDailyReport s today of
                 Some existingReport \<Rightarrow>
                   (Inr None,
                    updateDailyReport s now today
                      \<lparr>u_id = None, u_date = None,
                       u_totalSales = Some (JNum (toFixed 2 tSales)),
                       u_totalProfit = Some (JNum (toFixed 2 tProfit)),
                       u_totalCost = Some (JNum (toFixed 2 tCost)),
                       u_isSubmitted = Some True, u_submittedAt = None\<rparr>)
               | None \<Rightarrow>
                   (let (r, s') = createDailyReport s uid now
                          \<lparr>date = today,
                           totalSales = JNum (toFixed 2 tSales),
                           totalProfit = JNum (toFixed 2 tProfit),
                           totalCost = JNum (toFixed 2 tCost),
                           isSubmitted = True\<rparr>
                    in (Inr (Some r), s'))))"

section \<open>Runs of the ledger\<close>

text \<open>The operations of the ledger, as requests to the routes, and the store that a
  sequence of them leaves.\<close>

datatype op =
    CreateProduct jsstring jsdate body
  | RecordSale jsstring jsdate body
  | UpdateStock jsstring body
  | Submit jsstring jsdate

fun step :: "int \<Rightarrow> storage \<Rightarrow> op \<Rightarrow> storage" where
  "step tz s (CreateProduct uid now b) = snd (post_api_products s uid now b)"
| "step tz s (RecordSale uid now b) = snd (post_api_sales s uid now b)"
| "step tz s (UpdateStock i b) = snd (patch_api_products_stock s i b)"
| "step tz s (Submit uid now) = snd (post_api_reports_daily_submit tz s uid now)"

definition run :: "int \<Rightarrow> storage \<Rightarrow> op list \<Rightarrow> storage" where
  "run tz s ops = foldl (step tz) s ops"

text \<open>A stock is non-negative when \<^verbatim>\<open>parseFloat\<close> reads a number from it and the number
  is at least zero.\<close>

fun nonneg :: "jsnum \<Rightarrow> bool" where
  "nonneg (Fin a) = (0 \<le> a)"
| "nonneg PInf = True"
| "nonneg _ = False"

definition stocks_nonneg :: "storage \<Rightarrow> bool" where
  "stocks_nonneg s = list_all (\<lambda>(i, p). nonneg (parseFloat (stock p))) (products s)"

text \<open>What a request must carry for the stock to stay non-negative: a numeric initial
  stock that is not negative, a new stock that is not negative, a finite numeric
  quantity.\<close>

fun op_ok :: "op \<Rightarrow> bool" where
  "op_ok (CreateProduct uid now b) = nonneg (parseFloat (field b ''stock''))"
| "op_ok (UpdateStock i b) = (\<not> jslt (parseFloat (field b ''newStock'')) (Fin 0))"
| "op_ok (RecordSale uid now b) = isFinite (parseFloat (field b ''quantity''))"
| "op_ok (Submit uid now) = True"

text \<open>The derivation of a sale's totals that the specification names: the total is the
  quantity times the price, the profit is the total less the quantity times the purchase
  price, each rounded to two decimals.\<close>

definition derived_totalAmount :: "sale \<Rightarrow> jsnum" where
  "derived_totalAmount x = toFixed 2 (jsmul (parseFloat (quantity x)) (parseFloat (pricePerKg x)))"

definition derived_profit :: "product \<Rightarrow> sale \<Rightarrow> jsnum" where
  "derived_profit p x =
     toFixed 2 (jssub (derived_totalAmount x)
                  (jsmul (parseFloat (quantity x)) (parseFloat (purchasePrice p))))"

text \<open>The totals of a day, as a submission computes and prints them.\<close>

definition dayTotalSales :: "storage \<Rightarrow> int \<Rightarrow> json" where
  "dayTotalSales s d = JNum (toFixed 2 (sumTotalAmount (getSalesByDate s d)))"

definition dayTotalProfit :: "storage \<Rightarrow> int \<Rightarrow> json" where
  "dayTotalProfit s d = JNum (toFixed 2 (sumProfit (getSalesByDate s d)))"

definition dayTotalCost :: "storage \<Rightarrow> int \<Rightarrow> json" where
  "dayTotalCost s d =
     JNum (toFixed 2 (jssub (sumTotalAmount (getSalesByDate s d)) (sumProfit (getSalesByDate s d))))"

section \<open>Scenarios\<close>

text \<open>Day 20000 after the epoch, in a zone five hours east of UTC: noon and one o'clock
  UTC are the local hours 17 and 18.\<close>

definition zone :: int where
  "zone = 300"

definition hour17 :: jsdate where
  "hour17 = 20000 * 86400000 + 12 * 3600000"

definition hour18 :: jsdate where
  "hour18 = 20000 * 86400000 + 13 * 3600000"

definition hour19 :: jsdate where
  "hour19 = 20000 * 86400000 + 14 * 3600000"

definition productBody :: "string \<Rightarrow> string \<Rightarrow> string \<Rightarrow> string \<Rightarrow> body" where
  "productBody n pp sp st =
     [(''name'', JStr (str n)), (''purchasePrice'', JStr (str pp)),
      (''sellingPrice'', JStr (str sp)), (''stock'', JStr (str st))]"

definition saleBody :: "string \<Rightarrow> string \<Rightarrow> string \<Rightarrow> string \<Rightarrow> string \<Rightarrow> body" where
  "saleBody i q ppk ta pr =
     [(''productId'', JStr (str i)), (''quantity'', JStr (str q)),
      (''pricePerKg'', JStr (str ppk)), (''totalAmount'', JStr (str ta)),
      (''profit'', JStr (str pr))]"

text \<open>Scenario A: a product bought at 2.00, sold at 3.00, with stock 100; then a sale of
  10 at 3.00.\<close>

definition apples :: product where
  "apples = \<lparr>name = str ''apples'', purchasePrice = JStr (str ''2.00''),
             sellingPrice = JStr (str ''3.00''), stock = JStr (str ''100''),
             product_id = str ''p1'', createdAt = hour17\<rparr>"

definition storeA :: storage where
  "storeA = \<lparr>products = [(str ''p1'', apples)], sales = [], dailyReports = []\<rparr>"

definition saleA :: sale where
  "saleA = \<lparr>productId = str ''p1'', quantity = JStr (str ''10''),
            pricePerKg = JStr (str ''3.00''), totalAmount = JStr (str ''30.00''),
            profit = JStr (str ''10.00''), sale_id = str ''s1'', saleDate = hour17\<rparr>"

definition storeB :: storage where
  "storeB = \<lparr>products = [(str ''p1'', apples\<lparr>stock := JNum (Fin 90)\<rparr>)],
             sales = [(str ''s1'', saleA)], dailyReports = []\<rparr>"

text \<open>A second sale of 5 at 3.00 in the evening, after the day was first closed at local
  hour 18; the day is closed again at local hour 19.\<close>

definition saleA2 :: sale where
  "saleA2 = \<lparr>productId = str ''p1'', quantity = JStr (str ''5''),
             pricePerKg = JStr (str ''3.00''), totalAmount = JStr (str ''15.00''),
             profit = JStr (str ''5.00''), sale_id = str ''s2'', saleDate = hour18\<rparr>"

definition reportC :: dailyReport where
  "reportC = \<lparr>date = 20000, totalSales = JNum (Fin 30), totalProfit = JNum (Fin 10),
              totalCost = JNum (Fin 20), isSubmitted = True,
              report_id = str ''r1'', submittedAt = Some hour18\<rparr>"

definition storeC :: storage where
  "storeC = storeB\<lparr>dailyReports := [(20000, reportC)]\<rparr>"

definition storeD :: storage where
  "storeD = \<lparr>products = [(str ''p1'', apples\<lparr>stock := JNum (Fin 85)\<rparr>)],
             sales = [(str ''s1'', saleA), (str ''s2'', saleA2)],
             dailyReports = [(20000, reportC)]\<rparr>"

text \<open>The same hour seven days after the sale of scenario A.\<close>

definition weekLater :: jsdate where
  "weekLater = 20007 * 86400000 + 12 * 3600000"

definition stockBody :: "string \<Rightarrow> body" where
  "stockBody v = [(''newStock'', JStr (str v))]"

definition scenarioOps :: "op list" where
  "scenarioOps =
     [CreateProduct (str ''p1'') hour17 (productBody ''apples'' ''2.00'' ''3.00'' ''100''),
      RecordSale (str ''s1'') hour17 (saleBody ''p1'' ''10'' ''3.00'' ''30.00'' ''10.00''),
      Submit (str ''r1'') hour18,
      RecordSale (str ''s2'') hour18 (saleBody ''p1'' ''5'' ''3.00'' ''15.00'' ''5.00'')]"

text \<open>A sale of 10 at 3.00 whose request carries a total and a profit of the caller's
  own, and a product whose request carries an empty name, prices that are not positive and
  a negative stock.\<close>

definition saleBad :: sale where
  "saleBad = \<lparr>productId = str ''p1'', quantity = JStr (str ''10''),
              pricePerKg = JStr (str ''3.00''), totalAmount = JStr (str ''999''),
              profit = JStr (str ''500''), sale_id = str ''s1'', saleDate = hour17\<rparr>"

definition productBad :: product where
  "productBad = \<lparr>name = [], purchasePrice = JStr (str ''-1''),
                 sellingPrice = JStr (str ''0''), stock = JStr (str ''-5''),
                 product_id = str ''p1'', createdAt = hour17\<rparr>"






text \<open>A zone five hours west of UTC. On local day 20000 a sale is recorded at ten in the
  morning, which is 15:00 UTC, and the day is closed at 19:30, which is 00:30 UTC of day
  20001.\<close>

definition west :: int where
  "west = - 300"

definition westMorning :: jsdate where
  "westMorning = 20000 * 86400000 + 15 * 3600000"

definition westEvening :: jsdate where
  "westEvening = 20001 * 86400000 + 30 * 60000"

definition saleW :: sale where
  "saleW = saleA\<lparr>saleDate := westMorning\<rparr>"

definition storeW :: storage where
  "storeW = \<lparr>products = [(str ''p1'', apples\<lparr>stock := JNum (Fin 90)\<rparr>)],
             sales = [(str ''s1'', saleW)], dailyReports = []\<rparr>"

definition reportW :: dailyReport where
  "reportW = \<lparr>date = 20001, totalSales = JNum (Fin 0), totalProfit = JNum (Fin 0),
              totalCost = JNum (Fin 0), isSubmitted = True,
              report_id = str ''r1'', submittedAt = Some westEvening\<rparr>"

section \<open>Rounding to a double\<close>

lemma floor_rat_numeral_div [simp]:
  "\<lfloor>(numeral a :: rat) / numeral b\<rfloor> = numeral a div numeral b"
  using floor_divide_of_int_eq [of "numeral a" "numeral b", where ?'a = rat] by simp

lemma floor_rat_one_div [simp]:
  "\<lfloor>(1 :: rat) / numeral b\<rfloor> = 1 div numeral b"
  using floor_divide_of_int_eq [of 1 "numeral b", where ?'a = rat] by simp

lemma bitlen_numeral [simp]:
  "bitlen 1 = 1"
  "bitlen (numeral Num.One) = 1"
  "bitlen (numeral (Num.Bit0 n)) = bitlen (numeral n) + 1"
  "bitlen (numeral (Num.Bit1 n)) = bitlen (numeral n) + 1"
proof -
  show "bitlen 1 = 1" by (subst compute_bitlen) simp
  then show "bitlen (numeral Num.One) = 1" by simp
  have "numeral (Num.Bit0 n) div (2::int) = numeral n" by simp
  then show "bitlen (numeral (Num.Bit0 n)) = bitlen (numeral n) + 1"
    by (subst compute_bitlen) simp
  have "numeral (Num.Bit1 n) div (2::int) = numeral n" by simp
  then show "bitlen (numeral (Num.Bit1 n)) = bitlen (numeral n) + 1"
    by (subst compute_bitlen) simp
qed


lemma pow2_pos: "0 < pow2 k"
  by (simp add: pow2_def)

lemma pow2_nat: "0 \<le> e \<Longrightarrow> pow2 e = 2 ^ nat e"
  by (simp add: pow2_def)

lemma pow2_Suc: "pow2 (e + 1) = 2 * pow2 e"
proof (cases "0 \<le> e")
  case True
  then show ?thesis by (simp add: pow2_def nat_add_distrib)
next
  case False
  then have neg: "e < 0" by simp
  show ?thesis
  proof (cases "e = - 1")
    case True
    then show ?thesis by (simp add: pow2_def)
  next
    case False
    with neg have "e + 1 < 0" by simp
    moreover have "nat (- e) = Suc (nat (- (e + 1)))" using neg by simp
    ultimately show ?thesis using neg by (simp add: pow2_def)
  qed
qed

lemma pow2_neg: "pow2 (- e) = 1 / pow2 e"
  by (cases "e = 0") (auto simp: pow2_def)

text \<open>\<open>ilog2\<close> is the binary exponent.\<close>

lemma ilog2_bounds:
  assumes "0 < a"
  shows "pow2 (ilog2 a) \<le> a \<and> a < pow2 (ilog2 a + 1)"
proof (cases "1 \<le> a")
  case True
  define n where "n = \<lfloor>a\<rfloor>"
  have n: "0 < n" using True by (simp add: n_def)
  have lo: "1 \<le> bitlen n"
    using n bitlen_eq_zero_iff [of n] bitlen_nonneg [of n] by linarith
  from bitlen_bounds [OF n] have b: "2 ^ nat (bitlen n - 1) \<le> n" "n < 2 ^ nat (bitlen n)"
    by simp_all
  have "pow2 (bitlen n - 1) = of_int (2 ^ nat (bitlen n - 1))"
    using lo by (simp add: pow2_nat)
  also have "\<dots> \<le> of_int n" using b(1) by (simp only: of_int_le_iff)
  also have "\<dots> \<le> a" unfolding n_def by linarith
  finally have 1: "pow2 (bitlen n - 1) \<le> a" .
  have "n + 1 \<le> 2 ^ nat (bitlen n)" using b(2) by simp
  then have "rat_of_int (n + 1) \<le> of_int (2 ^ nat (bitlen n))" by (simp only: of_int_le_iff)
  moreover have "a < of_int (n + 1)" unfolding n_def by linarith
  ultimately have "a < of_int (2 ^ nat (bitlen n))" by simp
  also have "\<dots> = pow2 (bitlen n - 1 + 1)" using lo by (simp add: pow2_nat)
  finally have 2: "a < pow2 (bitlen n - 1 + 1)" .
  from 1 2 True show ?thesis by (simp add: ilog2_def n_def)
next
  case False
  then have small: "a < 1" by simp
  define n where "n = \<lfloor>1 / a\<rfloor>"
  have inv: "1 < 1 / a" using assms small by simp
  have n: "0 < n" using inv by (simp add: n_def)
  define b where "b = bitlen n"
  have lo: "1 \<le> b"
    unfolding b_def using n bitlen_eq_zero_iff [of n] bitlen_nonneg [of n] by linarith
  from bitlen_bounds [OF n] have bb: "2 ^ nat (b - 1) \<le> n" "n < 2 ^ nat b"
    by (simp_all add: b_def)
  have "rat_of_int (2 ^ nat (b - 1)) \<le> of_int n" using bb(1) by (simp only: of_int_le_iff)
  also have "\<dots> \<le> 1 / a" unfolding n_def by linarith
  finally have l: "pow2 (b - 1) \<le> 1 / a" using lo by (simp add: pow2_nat)
  have "n + 1 \<le> 2 ^ nat b" using bb(2) by simp
  then have "rat_of_int (n + 1) \<le> of_int (2 ^ nat b)" by (simp only: of_int_le_iff)
  moreover have "1 / a < of_int (n + 1)" unfolding n_def by linarith
  ultimately have "1 / a < of_int (2 ^ nat b)" by simp
  then have u: "1 / a < pow2 b" using lo by (simp add: pow2_nat)
  have pb: "0 < pow2 b" "0 < pow2 (b - 1)" by (simp_all add: pow2_pos)
  from u have lower: "pow2 (- b) < a"
    using assms pb(1) by (simp add: pow2_neg field_simps)
  have upper: "a \<le> pow2 (1 - b)"
  proof -
    from l have "a * pow2 (b - 1) \<le> 1"
      using assms by (simp add: field_simps)
    moreover have "pow2 (1 - b) * pow2 (b - 1) = 1"
      using pow2_neg [of "b - 1"] pb(2) by simp
    ultimately have "a * pow2 (b - 1) \<le> pow2 (1 - b) * pow2 (b - 1)"
      by simp
    then show ?thesis
      using pb(2) by (rule mult_right_le_imp_le)
  qed
  have step: "pow2 (1 - b) = 2 * pow2 (- b)" "pow2 (1 - b + 1) = 2 * pow2 (1 - b)"
    using pow2_Suc [of "- b"] pow2_Suc [of "1 - b"] by (simp_all add: algebra_simps)
  have pp: "0 < pow2 (1 - b)" by (rule pow2_pos)
  have e: "ilog2 a = (if pow2 (1 - b) \<le> a then 1 - b else - b)"
    using small by (simp add: ilog2_def Let_def n_def b_def)
  show ?thesis
  proof (cases "pow2 (1 - b) \<le> a")
    case True
    have "a < 2 * pow2 (1 - b)" using upper pp by linarith
    with True show ?thesis by (simp only: e if_True step(2) simp_thms)
  next
    case False
    moreover have "pow2 (- b) \<le> a" using lower by simp
    moreover have "a < pow2 (- b + 1)" using False by (simp add: algebra_simps)
    ultimately show ?thesis by (simp only: e if_False simp_thms)
  qed
qed


lemma round_half_even_error: "\<bar>x - of_int (round_half_even x)\<bar> \<le> 1 / 2"
proof -
  have "of_int \<lfloor>x\<rfloor> \<le> x" "x < of_int \<lfloor>x\<rfloor> + 1"
    by linarith+
  then show ?thesis
    by (auto simp: round_half_even_def Let_def)
qed

text \<open>The double of \<open>x\<close> is a multiple of the step of the binade of \<open>x\<close>, and at most
  half a step from \<open>x\<close>.\<close>

lemma rd_nearest:
  assumes "rd x = Fin y"
  shows "\<exists>m. y = of_int m * pow2 (max (ilog2 \<bar>x\<bar> - 52) (- 1074))
    \<and> \<bar>y - x\<bar> \<le> pow2 (max (ilog2 \<bar>x\<bar> - 52) (- 1074)) / 2"
proof -
  define k where "k = max (ilog2 \<bar>x\<bar> - 52) (- 1074)"
  have "\<exists>m. y = of_int m * pow2 k \<and> \<bar>y - x\<bar> \<le> pow2 k / 2"
  proof (cases "x = 0")
  case True
  with assms have "y = 0" by (simp add: rd_def)
  with True show ?thesis
    using pow2_pos [of k] by (intro exI [of _ 0]) simp
next
  case False
  define M where "M = round_half_even (\<bar>x\<bar> / pow2 k)"
  have p: "0 < pow2 k" by (rule pow2_pos)
  have "\<bar>\<bar>x\<bar> / pow2 k - of_int M\<bar> \<le> 1 / 2"
    unfolding M_def by (rule round_half_even_error)
  then have "\<bar>\<bar>x\<bar> / pow2 k - of_int M\<bar> * pow2 k \<le> 1 / 2 * pow2 k"
    using p by (simp only: mult_le_cancel_right_pos)
  moreover have "\<bar>\<bar>x\<bar> / pow2 k - of_int M\<bar> * pow2 k = \<bar>\<bar>x\<bar> - of_int M * pow2 k\<bar>"
    using p by (simp add: abs_mult [symmetric] field_simps abs_of_pos)
  ultimately have err: "\<bar>\<bar>x\<bar> - of_int M * pow2 k\<bar> \<le> pow2 k / 2"
    by simp
  from assms(1) False have y: "y = (if 0 < x then of_int M * pow2 k else - (of_int M * pow2 k))"
    by (simp add: rd_def Let_def k_def M_def split: if_splits)
  show ?thesis
  proof (cases "0 < x")
    case True
    with y err show ?thesis
      by (intro exI [of _ M]) (simp add: abs_minus_commute)
  next
    case False
    with \<open>x \<noteq> 0\<close> have neg: "x < 0" by simp
    with y have "y = of_int (- M) * pow2 k" by simp
    moreover have "\<bar>y - x\<bar> = \<bar>\<bar>x\<bar> - of_int M * pow2 k\<bar>"
      using neg y by (simp add: abs_if)
    ultimately show ?thesis
      using err by (intro exI [of _ "- M"]) simp
  qed
  qed
  then show ?thesis by (simp only: k_def)
qed

lemma round_half_even_of_int [simp]: "round_half_even (of_int j) = j"
  by (simp add: round_half_even_def)

lemma round_half_even_nonneg: "0 \<le> x \<Longrightarrow> 0 \<le> round_half_even x"
  by (auto simp: round_half_even_def Let_def)

text \<open>Rounding keeps the sign: the double of a value that is not negative is not
  negative.\<close>

lemma rd_nonneg:
  assumes "0 \<le> x"
  shows "nonneg (rd x)"
proof (cases "x = 0")
  case True
  then show ?thesis by (simp add: rd_def)
next
  case False
  with assms have pos: "0 < x" by simp
  define k where "k = max (ilog2 \<bar>x\<bar> - 52) (- 1074)"
  have "0 \<le> \<bar>x\<bar> / pow2 k"
    using pow2_pos [of k] by simp
  then have "0 \<le> round_half_even (\<bar>x\<bar> / pow2 k)"
    by (rule round_half_even_nonneg)
  then have "0 \<le> rat_of_int (round_half_even (\<bar>x\<bar> / pow2 k)) * pow2 k"
    using pow2_pos [of k] by simp
  with pos False show ?thesis
    by (simp add: rd_def Let_def k_def)
qed

text \<open>An integer below \<open>2 ^ 53\<close> in absolute value is a double.\<close>

lemma rd_of_int:
  assumes "\<bar>n\<bar> < 2 ^ 53"
  shows "rd (of_int n) = Fin (of_int n)"
proof (cases "n = 0")
  case True
  then show ?thesis by (simp add: rd_def)
next
  case False
  define a where "a = \<bar>n\<bar>"
  have a: "0 < a" "a < 2 ^ 53"
    using False assms by (simp_all add: a_def)
  have abs: "\<bar>rat_of_int n\<bar> = of_int a"
    by (simp add: a_def)
  have one: "(1 :: rat) \<le> of_int a"
    using a(1) by simp
  have e: "ilog2 (of_int a) = bitlen a - 1"
    using one by (simp add: ilog2_def)
  have hi: "bitlen a \<le> 53"
    using a(2) by (simp add: bitlen_le_iff_power)
  have lo: "1 \<le> bitlen a"
    using a(1) bitlen_eq_zero_iff [of a] bitlen_nonneg [of a] by linarith
  define j where "j = nat (53 - bitlen a)"
  have k: "max (ilog2 (of_int a) - 52) (- 1074) = - int j"
    using hi lo by (simp add: e j_def)
  have p: "pow2 (- int j) = 1 / 2 ^ j"
    by (cases "j = 0") (simp_all add: pow2_def)
  have q: "rat_of_int a / pow2 (- int j) = of_int (a * 2 ^ j)"
    by (simp add: p)
  have y: "rat_of_int (round_half_even (of_int a / pow2 (- int j))) * pow2 (- int j) = of_int a"
    unfolding q round_half_even_of_int by (simp add: p)
  have "rat_of_int a < 2 ^ 53"
    using a(2) by (metis of_int_less_iff of_int_numeral of_int_power)
  also have "(2 :: rat) ^ 53 \<le> 2 ^ 1024"
    by (rule power_increasing) simp_all
  finally have small: "\<not> pow2 1024 \<le> rat_of_int a"
    by (simp add: pow2_def)
  have "rd (of_int n) = Fin (if 0 < n then of_int a else - of_int a)"
    using False small by (simp add: rd_def Let_def abs k y)
  also have "(if 0 < n then rat_of_int a else - of_int a) = of_int n"
    using False by (simp add: a_def)
  finally show ?thesis .
qed

lemma rd_numeral [simp]:
  "rd 0 = Fin 0"
  "rd 1 = Fin 1"
  "rd (- 1) = Fin (- 1)"
  "numeral n < (9007199254740992 :: int) \<Longrightarrow> rd (numeral n) = Fin (numeral n)"
  "numeral n < (9007199254740992 :: int) \<Longrightarrow> rd (- numeral n) = Fin (- numeral n)"
  using rd_of_int [of 0] rd_of_int [of 1] rd_of_int [of "- 1"] rd_of_int [of "numeral n"]
    rd_of_int [of "- numeral n"]
  by simp_all



section \<open>Evaluation on literals\<close>

lemma str_simps [simp]:
  "str [] = []"
  "str a = str b \<longleftrightarrow> a = b"
  "str a = [] \<longleftrightarrow> a = []"
proof -
  have "inj (of_char :: char \<Rightarrow> nat)"
    by (rule injI) simp
  then have "inj (map (of_char :: char \<Rightarrow> nat))"
    by simp
  then show "str a = str b \<longleftrightarrow> a = b"
    by (simp add: str_def inj_eq)
qed (simp_all add: str_def)

lemmas parse_defs = parseFloat_str_def strDecimalLiteral_def is_space_def is_digit_def
  digits_val_def digit_val_def exponent_part_def pow10_def str_def

lemma parse_literals [simp]:
  "parseFloat_str (str ''100'') = Fin 100"
  "parseFloat_str (str ''10'') = Fin 10"
  "parseFloat_str (str ''5'') = Fin 5"
  "parseFloat_str (str ''150'') = Fin 150"
  "parseFloat_str (str ''2.00'') = Fin 2"
  "parseFloat_str (str ''3.00'') = Fin 3"
  "parseFloat_str (str ''30.00'') = Fin 30"
  "parseFloat_str (str ''10.00'') = Fin 10"
  "parseFloat_str (str ''15.00'') = Fin 15"
  "parseFloat_str (str ''5.00'') = Fin 5"
  "parseFloat_str (str ''450.00'') = Fin 450"
  "parseFloat_str (str ''150.00'') = Fin 150"
  "parseFloat_str (str ''999'') = Fin 999"
  "parseFloat_str (str ''500'') = Fin 500"
  "parseFloat_str (str ''-5'') = Fin (- 5)"
  "parseFloat_str (str ''-1'') = Fin (- 1)"
  "parseFloat_str (str ''0'') = Fin 0"
  "parseFloat_str (str ''-110'') = Fin (- 110)"
  by (simp_all add: parse_defs)

lemma parse_non_numeric [simp]:
  "parseFloat_str [] = NaN"
  "parseFloat_str (str ''abc'') = NaN"
  by (simp_all add: parse_defs)

text \<open>The infinity literal, a number that overflows, and white space that is not ASCII
  before a number.\<close>

lemma parse_beyond_decimals:
  "parseFloat_str (str ''Infinity'') = PInf"
  "parseFloat_str (str ''-Infinity'') = NInf"
  "parseFloat_str [160, 53] = Fin 5"
  "parseFloat_str [8195, 65279, 53] = Fin 5"
  by (simp_all add: parse_defs)





lemma round_half_away_of_int: "round_half_away (of_int k) = k"
proof -
  have "\<lfloor>(of_int k :: rat) + 1 / 2\<rfloor> = k" "\<lfloor>- (of_int k :: rat) + 1 / 2\<rfloor> = - k"
    by linarith+
  then show ?thesis by (simp add: round_half_away_def)
qed

lemma round_half_away_numeral [simp]:
  "round_half_away (numeral n) = numeral n"
  "round_half_away (- numeral n) = - numeral n"
  "round_half_away 0 = 0"
  using round_half_away_of_int [of "numeral n"] round_half_away_of_int [of "- numeral n"]
    round_half_away_of_int [of 0]
  by simp_all

lemma clock_literals [simp]:
  "isoDay hour17 = 20000"
  "isoDay hour18 = 20000"
  "isoDay hour19 = 20000"
  "isoDay weekLater = 20007"
  "isoDay (subDays weekLater 7) = 20000"
  "getHours zone hour17 = 17"
  "getHours zone hour18 = 18"
  "getHours zone hour19 = 19"
  by (simp_all add: isoDay_def getHours_def subDays_def zone_def hour17_def hour18_def
      hour19_def weekLater_def)

lemma west_clock_literals [simp]:
  "isoDay westMorning = 20000"
  "isoDay westEvening = 20001"
  "localDay west westMorning = 20000"
  "localDay west westEvening = 20000"
  "getHours west westMorning = 10"
  "getHours west westEvening = 19"
  by (simp_all add: isoDay_def getHours_def localDay_def west_def westMorning_def
      westEvening_def)

lemmas body_defs = field_def productBody_def saleBody_def stockBody_def

lemmas storage_defs = getProduct_def createProduct_def updateProductStock_def
  getSalesByDate_def getSalesByDateRange_def createSale_def getDailyReport_def
  createDailyReport_def updateDailyReport_def assign_def sumProfit_def sumTotalAmount_def
  Let_def

lemmas schema_defs = insertProductSchema_def insertSaleSchema_def z_string_optional_def

lemma scenarioA_product:
  "post_api_products MemStorage (str ''p1'') hour17
     (productBody ''apples'' ''2.00'' ''3.00'' ''100'')
   = (Inr apples, storeA)"
  by (simp add: post_api_products_def schema_defs body_defs storage_defs MemStorage_def
      apples_def storeA_def)

lemma scenarioA_sale:
  "post_api_sales storeA (str ''s1'') hour17 (saleBody ''p1'' ''10'' ''3.00'' ''30.00'' ''10.00'')
   = (Inr saleA, storeB)"
  by (simp add: post_api_sales_def schema_defs body_defs storage_defs storeA_def storeB_def
      apples_def saleA_def)

lemma scenario_first_submit:
  "post_api_reports_daily_submit zone storeB (str ''r1'') hour18 = (Inr (Some reportC), storeC)"
  by (simp add: post_api_reports_daily_submit_def storage_defs storeB_def storeC_def
      saleA_def reportC_def)

lemma scenario_second_sale:
  "post_api_sales storeC (str ''s2'') hour18 (saleBody ''p1'' ''5'' ''3.00'' ''15.00'' ''5.00'')
   = (Inr saleA2, storeD)"
  by (simp add: post_api_sales_def schema_defs body_defs storage_defs storeB_def storeC_def
      storeD_def apples_def saleA2_def)

lemma scenario_run: "run zone MemStorage scenarioOps = storeD"
  by (simp add: run_def scenarioOps_def scenarioA_product scenarioA_sale scenario_first_submit
      scenario_second_sale)

lemma scenario_west_sale:
  "post_api_sales storeA (str ''s1'') westMorning
     (saleBody ''p1'' ''10'' ''3.00'' ''30.00'' ''10.00'')
   = (Inr saleW, storeW)"
  by (simp add: post_api_sales_def schema_defs body_defs storage_defs storeA_def storeW_def
      apples_def saleA_def saleW_def)

section \<open>Shared facts about the store\<close>

lemma list_all_update:
  "list_all P al \<Longrightarrow> P (k, v) \<Longrightarrow> list_all P (AList.update k v al)"
  by (induction al) auto

lemma products_updateDailyReport [simp]:
  "products (updateDailyReport s now d u) = products s"
  by (simp add: updateDailyReport_def Let_def split: option.splits)

lemma products_createDailyReport [simp]:
  "products (snd (createDailyReport s uid now ins)) = products s"
  by (simp add: createDailyReport_def Let_def)

lemma products_submit:
  "products (snd (post_api_reports_daily_submit tz s uid now)) = products s"
  by (simp add: post_api_reports_daily_submit_def Let_def split_beta split: option.splits)

lemma nonneg_iff: "nonneg x \<longleftrightarrow> \<not> isNaN x \<and> \<not> jslt x (Fin 0)"
  by (cases x) auto

lemma nonneg_printed:
  assumes "nonneg z"
  shows "nonneg (parseFloat (JNum z))"
  using assms by (cases z) (simp_all add: rd_nonneg)

lemma nonneg_jssub:
  assumes "nonneg a" "isFinite q" "\<not> jslt a q"
  shows "nonneg (jssub a q)"
  using assms by (cases a; cases q) (simp_all add: rd_nonneg)

lemma stock_of_member:
  assumes "stocks_nonneg s" "map_of (products s) i = Some p"
  shows "nonneg (parseFloat (stock p))"
proof -
  from assms(2) have "(i, p) \<in> set (products s)" by (rule map_of_SomeD)
  with assms(1) show ?thesis by (auto simp: stocks_nonneg_def list_all_iff)
qed

subsection \<open>Each operation keeps the stocks non-negative\<close>

lemma step_create:
  assumes "stocks_nonneg s" "nonneg (parseFloat (field b ''stock''))"
  shows "stocks_nonneg (snd (post_api_products s uid now b))"
  using assms
  by (auto simp: post_api_products_def insertProductSchema_def createProduct_def Let_def
      stocks_nonneg_def intro!: list_all_update)

lemma step_patch:
  assumes "stocks_nonneg s" "\<not> jslt (parseFloat (field b ''newStock'')) (Fin 0)"
  shows "stocks_nonneg (snd (patch_api_products_stock s i b))"
  using assms
  by (auto simp: patch_api_products_stock_def updateProductStock_def Let_def
      stocks_nonneg_def nonneg_iff intro!: list_all_update split: option.splits)

lemma step_sale:
  assumes "stocks_nonneg s" "isFinite (parseFloat (field b ''quantity''))"
  shows "stocks_nonneg (snd (post_api_sales s uid now b))"
proof (cases "insertSaleSchema b")
  case None
  with assms(1) show ?thesis by (simp add: post_api_sales_def)
next
  case parsed: (Some sd)
  then have q: "quantity sd = field b ''quantity''"
    by (auto simp: insertSaleSchema_def split: if_splits)
  show ?thesis
  proof (cases "map_of (products s) (productId sd)")
    case None
    with parsed assms(1) show ?thesis by (simp add: post_api_sales_def getProduct_def)
  next
    case (Some p)
    have pn: "nonneg (parseFloat (stock p))" using assms(1) Some by (rule stock_of_member)
    show ?thesis
    proof (cases "jslt (parseFloat (stock p)) (parseFloat (quantity sd))")
      case True
      with Some parsed assms(1) show ?thesis
        by (simp add: post_api_sales_def getProduct_def)
    next
      case False
      have "nonneg (jssub (parseFloat (stock p)) (parseFloat (quantity sd)))"
        using pn assms(2) False q by (simp add: nonneg_jssub)
      then have "nonneg (parseFloat
          (JNum (jssub (parseFloat (stock p)) (parseFloat (quantity sd)))))"
        by (rule nonneg_printed)
      with Some parsed assms(1) False show ?thesis
        by (auto simp: post_api_sales_def getProduct_def createSale_def Let_def
            updateProductStock_def stocks_nonneg_def simp del: parseFloat.simps
            intro!: list_all_update)
    qed
  qed
qed

lemma step_preserves:
  assumes "stocks_nonneg s" "op_ok x"
  shows "stocks_nonneg (step tz s x)"
proof (cases x)
  case (Submit uid now)
  with assms(1) show ?thesis by (simp add: stocks_nonneg_def products_submit)
qed (use assms in \<open>simp_all add: step_create step_patch step_sale\<close>)

lemma run_preserves:
  assumes "stocks_nonneg s" "\<forall>x\<in>set ops. op_ok x"
  shows "stocks_nonneg (run tz s ops)"
  using assms unfolding run_def
  by (induction ops arbitrary: s) (simp_all add: step_preserves)

section \<open>The stock invariant\<close>

text \<open>
  C2, as amended. The store checks a stock only when a sale is recorded; the initial stock
  of \<open>createProduct\<close> and the new stock of \<open>updateProductStock\<close> are stored as sent. So
  every product's stock is at least zero in every state reached from the empty store by
  requests that carry a numeric initial stock that is not negative, a new stock that is
  not negative and finite numeric sale quantities.
\<close>

theorem stock_nonneg_invariant:
  assumes "\<forall>x\<in>set ops. op_ok x"
  shows "stocks_nonneg (run tz MemStorage ops)"
  using assms by (intro run_preserves) (simp_all add: stocks_nonneg_def MemStorage_def)

theorem stock_nonneg_invariant_witness:
  "list_all op_ok scenarioOps \<and> run zone MemStorage scenarioOps = storeD
   \<and> stocks_nonneg storeD"
proof -
  have ok: "\<forall>x\<in>set scenarioOps. op_ok x"
    by (simp add: scenarioOps_def body_defs)
  from stock_nonneg_invariant [OF ok, of zone] ok show ?thesis
    by (simp add: scenario_run list_all_iff)
qed

text \<open>C2 as stated fails: a product created with the initial stock \<^verbatim>\<open>"-5"\<close> is stored
  with that stock.\<close>

theorem stock_nonneg_counterexample:
  "\<not> stocks_nonneg
      (run zone MemStorage
         [CreateProduct (str ''p1'') hour17 (productBody ''apples'' ''2.00'' ''3.00'' ''-5'')])"
  by (simp add: run_def stocks_nonneg_def post_api_products_def schema_defs body_defs
      storage_defs MemStorage_def)

text \<open>The quantity has to be finite: a sale of the quantity \<^verbatim>\<open>"Infinity"\<close> of a product
  with the stock \<^verbatim>\<open>"Infinity"\<close> is recorded, since an infinity is not less than itself,
  and leaves the stock \<open>NaN\<close>.\<close>

lemma infinite_quantity_breaks_stock:
  "\<not> stocks_nonneg
      (run zone MemStorage
         [CreateProduct (str ''p1'') hour17
            (productBody ''apples'' ''2.00'' ''3.00'' ''Infinity''),
          RecordSale (str ''s1'') hour17
            (saleBody ''p1'' ''Infinity'' ''3.00'' ''30.00'' ''10.00'')])"
  by (simp add: run_def stocks_nonneg_def post_api_products_def post_api_sales_def schema_defs
      body_defs storage_defs MemStorage_def parse_beyond_decimals)

section \<open>Recording a sale\<close>


lemma post_api_sales_Inr:
  assumes "post_api_sales s uid now b = (Inr x, s')"
  obtains sd p where
    "insertSaleSchema b = Some sd"
    "map_of (products s) (productId sd) = Some p"
    "\<not> jslt (parseFloat (stock p)) (parseFloat (quantity sd))"
    "x = \<lparr>productId = productId sd, quantity = quantity sd, pricePerKg = pricePerKg sd,
          totalAmount = totalAmount sd, profit = profit sd, sale_id = uid, saleDate = now\<rparr>"
    "s' = s\<lparr>sales := AList.update uid x (sales s),
           products := AList.update (productId sd)
             (p\<lparr>stock := JNum (jssub (parseFloat (stock p)) (parseFloat (quantity sd)))\<rparr>)
             (products s)\<rparr>"
proof -
  from assms obtain sd where sd: "insertSaleSchema b = Some sd"
    by (cases "insertSaleSchema b") (auto simp: post_api_sales_def)
  with assms obtain p where p: "map_of (products s) (productId sd) = Some p"
    by (cases "map_of (products s) (productId sd)") (auto simp: post_api_sales_def getProduct_def)
  from assms sd p have enough: "\<not> jslt (parseFloat (stock p)) (parseFloat (quantity sd))"
    by (auto simp: post_api_sales_def getProduct_def split: if_splits)
  from assms sd p enough have
    "createSale s uid now sd = (x, s')"
    by (simp add: post_api_sales_def getProduct_def split_beta prod_eq_iff)
  with p have
    "x = \<lparr>productId = productId sd, quantity = quantity sd, pricePerKg = pricePerKg sd,
          totalAmount = totalAmount sd, profit = profit sd, sale_id = uid, saleDate = now\<rparr>"
    "s' = s\<lparr>sales := AList.update uid x (sales s),
           products := AList.update (productId sd)
             (p\<lparr>stock := JNum (jssub (parseFloat (stock p)) (parseFloat (quantity sd)))\<rparr>)
             (products s)\<rparr>"
    by (auto simp: createSale_def updateProductStock_def Let_def)
  with sd p enough show thesis by (rule that)
qed

lemma insertSaleSchema_fields:
  assumes "insertSaleSchema b = Some sd"
  shows "quantity sd = field b ''quantity''" "pricePerKg sd = field b ''pricePerKg''"
    "totalAmount sd = field b ''totalAmount''" "profit sd = field b ''profit''"
    "field b ''productId'' = JStr (productId sd)"
  using assms
  by (auto simp: insertSaleSchema_def split: if_splits elim: z_string.elims)

text \<open>
  C1, as amended. For every sale recorded by \<open>recordSale\<close>, the stored sale holds the
  quantity, the price, the total amount and the profit that the caller sent in the
  request: the store derives neither the total amount nor the profit.
\<close>

theorem recordSale_stores_caller_totals:
  assumes "post_api_sales s uid now b = (Inr x, s')"
  shows "map_of (sales s') uid = Some x
    \<and> quantity x = field b ''quantity'' \<and> pricePerKg x = field b ''pricePerKg''
    \<and> totalAmount x = field b ''totalAmount'' \<and> profit x = field b ''profit''"
  using assms
  by (elim post_api_sales_Inr) (simp add: insertSaleSchema_fields update_conv')

theorem recordSale_stores_caller_totals_witness:
  "post_api_sales storeA (str ''s1'') hour17 (saleBody ''p1'' ''10'' ''3.00'' ''30.00'' ''10.00'')
     = (Inr saleA, storeB)
   \<and> map_of (sales storeB) (str ''s1'') = Some saleA
   \<and> totalAmount saleA = JStr (str ''30.00'') \<and> profit saleA = JStr (str ''10.00'')"
  using recordSale_stores_caller_totals [OF scenarioA_sale] scenarioA_sale
  by (simp add: body_defs)

text \<open>C1 as stated fails: a request for 10 at 3.00 of a product bought at 2.00 that
  carries the total \<^verbatim>\<open>"999"\<close> and the profit \<^verbatim>\<open>"500"\<close> is stored with these, not with
  30.00 and a profit derived from the purchase price.\<close>

theorem recordSale_totals_counterexample:
  "post_api_sales storeA (str ''s1'') hour17 (saleBody ''p1'' ''10'' ''3.00'' ''999'' ''500'')
     = (Inr saleBad, storeB\<lparr>sales := [(str ''s1'', saleBad)]\<rparr>)
   \<and> parseFloat (totalAmount saleBad) = Fin 999 \<and> derived_totalAmount saleBad = Fin 30
   \<and> parseFloat (profit saleBad) = Fin 500 \<and> derived_profit apples saleBad = Fin 10"
  by (simp add: post_api_sales_def schema_defs body_defs storage_defs storeA_def storeB_def
      apples_def saleBad_def derived_totalAmount_def derived_profit_def)







section \<open>Closing the day\<close>

lemmas day_defs = dayTotalSales_def dayTotalProfit_def dayTotalCost_def

lemma submit_early:
  assumes "getHours tz now < 18"
  shows "post_api_reports_daily_submit tz s uid now = (Inl EarlySubmission, s)"
  using assms by (simp add: post_api_reports_daily_submit_def)

lemma submit_create:
  assumes "18 \<le> getHours tz now" and "getDailyReport s (isoDay now) = None"
  shows "post_api_reports_daily_submit tz s uid now =
    (Inr (Some \<lparr>date = isoDay now, totalSales = dayTotalSales s (isoDay now),
                 totalProfit = dayTotalProfit s (isoDay now),
                 totalCost = dayTotalCost s (isoDay now), isSubmitted = True,
                 report_id = uid, submittedAt = Some now\<rparr>),
     s\<lparr>dailyReports := AList.update (isoDay now)
          \<lparr>date = isoDay now, totalSales = dayTotalSales s (isoDay now),
           totalProfit = dayTotalProfit s (isoDay now),
           totalCost = dayTotalCost s (isoDay now), isSubmitted = True,
           report_id = uid, submittedAt = Some now\<rparr> (dailyReports s)\<rparr>)"
  using assms
  by (simp add: post_api_reports_daily_submit_def createDailyReport_def day_defs Let_def)

lemma submit_update:
  assumes "18 \<le> getHours tz now" and "getDailyReport s (isoDay now) = Some old"
  shows "post_api_reports_daily_submit tz s uid now =
    (Inr None,
     s\<lparr>dailyReports := AList.update (isoDay now)
          (old\<lparr>totalSales := dayTotalSales s (isoDay now),
               totalProfit := dayTotalProfit s (isoDay now),
               totalCost := dayTotalCost s (isoDay now), isSubmitted := True,
               submittedAt := (if isSubmitted old then submittedAt old else Some now)\<rparr>)
          (dailyReports s)\<rparr>)"
  using assms
  by (cases old)
    (simp add: post_api_reports_daily_submit_def updateDailyReport_def getDailyReport_def
      assign_def day_defs Let_def)



text \<open>The hour check of the submission: it fails with \<open>EarlySubmission\<close> if and only if the
  local hour at the call is less than 18, and then changes nothing. At local hour 18 or
  later it succeeds: with no report for the UTC day of the call it creates one, submitted
  at the call; with a report for that day it updates that report, which is then
  submitted.\<close>

lemma submit_hour_check:
  "(fst (post_api_reports_daily_submit tz s uid now) = Inl EarlySubmission
      \<longleftrightarrow> getHours tz now < 18)
   \<and> (getHours tz now < 18 \<longrightarrow> snd (post_api_reports_daily_submit tz s uid now) = s)
   \<and> (18 \<le> getHours tz now \<longrightarrow>
        (case getDailyReport s (isoDay now) of
           None \<Rightarrow>
             (\<exists>r. post_api_reports_daily_submit tz s uid now
                    = (Inr (Some r), s\<lparr>dailyReports := AList.update (isoDay now) r (dailyReports s)\<rparr>)
                \<and> getDailyReport (snd (post_api_reports_daily_submit tz s uid now)) (isoDay now)
                    = Some r
                \<and> date r = isoDay now \<and> isSubmitted r \<and> submittedAt r = Some now)
         | Some old \<Rightarrow>
             (\<exists>r. post_api_reports_daily_submit tz s uid now
                    = (Inr None, s\<lparr>dailyReports := AList.update (isoDay now) r (dailyReports s)\<rparr>)
                \<and> getDailyReport (snd (post_api_reports_daily_submit tz s uid now)) (isoDay now)
                    = Some r
                \<and> report_id r = report_id old \<and> date r = date old \<and> isSubmitted r)))"
proof (cases "getHours tz now < 18")
  case True
  then show ?thesis by (simp add: submit_early)
next
  case False
  then have late: "18 \<le> getHours tz now" by simp
  have "fst (post_api_reports_daily_submit tz s uid now) \<noteq> Inl EarlySubmission"
    using late by (cases "getDailyReport s (isoDay now)") (simp_all add: submit_create submit_update)
  moreover have "case getDailyReport s (isoDay now) of
           None \<Rightarrow>
             (\<exists>r. post_api_reports_daily_submit tz s uid now
                    = (Inr (Some r), s\<lparr>dailyReports := AList.update (isoDay now) r (dailyReports s)\<rparr>)
                \<and> getDailyReport (snd (post_api_reports_daily_submit tz s uid now)) (isoDay now)
                    = Some r
                \<and> date r = isoDay now \<and> isSubmitted r \<and> submittedAt r = Some now)
         | Some old \<Rightarrow>
             (\<exists>r. post_api_reports_daily_submit tz s uid now
                    = (Inr None, s\<lparr>dailyReports := AList.update (isoDay now) r (dailyReports s)\<rparr>)
                \<and> getDailyReport (snd (post_api_reports_daily_submit tz s uid now)) (isoDay now)
                    = Some r
                \<and> report_id r = report_id old \<and> date r = date old \<and> isSubmitted r)"
  proof (cases "getDailyReport s (isoDay now)")
    case None
    then show ?thesis
      by (simp add: submit_create [OF late None] getDailyReport_def update_conv')
  next
    case (Some old)
    then show ?thesis
      by (simp add: submit_update [OF late Some] getDailyReport_def update_conv')
  qed
  ultimately show ?thesis using False by simp
qed

text \<open>
  C6. The claim is that a submission at a local hour of 18 or more creates or updates the
  report for today, the day that the local hour belongs to. The code takes the hour from
  the local clock and the day from the UTC clock. Five hours west of UTC, a submission at
  19:30 of local day 20000, a day with one sale of 30.00, passes the hour check and creates a
  report for day 20001 with all totals zero; day 20000 is left without a report.
\<close>

theorem submit_files_under_utc_day:
  "getHours west westEvening = 19
   \<and> localDay west westEvening = 20000
   \<and> localDay west (saleDate saleW) = 20000
   \<and> parseFloat (totalAmount saleW) = Fin 30
   \<and> sales storeW = [(str ''s1'', saleW)]
   \<and> post_api_reports_daily_submit west storeW (str ''r1'') westEvening
       = (Inr (Some reportW), storeW\<lparr>dailyReports := [(20001, reportW)]\<rparr>)
   \<and> date reportW = 20001
   \<and> totalSales reportW = JNum (Fin 0)
   \<and> getDailyReport (storeW\<lparr>dailyReports := [(20001, reportW)]\<rparr>) 20000 = None"
  by (simp add: post_api_reports_daily_submit_def storage_defs storeW_def saleW_def saleA_def
      reportW_def)

section \<open>The dashboard\<close>

lemma isoDay_subDays: "isoDay (subDays now n) = isoDay now - n"
proof -
  have "(now + (- n) * 86400000) div 86400000 = - n + now div 86400000"
    by (rule div_mult_self1) simp
  then show ?thesis by (simp add: isoDay_def subDays_def)
qed

text \<open>The weekly profit of the dashboard sums the sales of eight calendar days: today and
  the seven days before it.\<close>

lemma weeklyProfit_window:
  "weeklyProfit (getDashboardStats s now)
   = toFixed 2 (sumProfit (getSalesByDateRange s (isoDay now - 7) (isoDay now)))"
  by (simp add: getDashboardStats_def Let_def isoDay_subDays)

text \<open>
  C7. The claim is that \<open>weeklyProfit\<close> sums the profit of the sales of the seven days
  from six days ago to today. The code starts the window seven days ago: the sale of
  scenario A, seven days old, lies outside the days from six days ago to today, which
  hold no sale, and yet its profit of 10.00 is the weekly profit.
\<close>

theorem weeklyProfit_counts_day_minus_7:
  "isoDay weekLater - isoDay (saleDate saleA) = 7
   \<and> getSalesByDateRange storeB (isoDay weekLater - 6) (isoDay weekLater) = []
   \<and> weeklyProfit (getDashboardStats storeB weekLater) = Fin 10"
  by (simp add: getDashboardStats_def storage_defs storeB_def saleA_def)

section \<open>Updating a stock\<close>





text \<open>What \<^verbatim>\<open>parseFloat\<close> reads as a number is accepted whatever its form: the infinity
  literal, a number after a no-break space, an array whose first element is a number. The
  number zero, which is falsy, is refused.\<close>

lemma stock_update_accepts_what_parseFloat_reads:
  "patch_api_products_stock storeB (str ''p1'') (stockBody ''Infinity'')
   = (Inr (), storeB\<lparr>products := [(str ''p1'', apples\<lparr>stock := JStr (str ''Infinity'')\<rparr>)]\<rparr>)"
  "patch_api_products_stock storeB (str ''p1'') [(''newStock'', JStr [160, 53])]
   = (Inr (), storeB\<lparr>products := [(str ''p1'', apples\<lparr>stock := JStr [160, 53]\<rparr>)]\<rparr>)"
  "patch_api_products_stock storeB (str ''p1'') [(''newStock'', JArr [JNum (Fin 5)])]
   = (Inr (), storeB\<lparr>products := [(str ''p1'', apples\<lparr>stock := JArr [JNum (Fin 5)]\<rparr>)]\<rparr>)"
  "patch_api_products_stock storeB (str ''p1'') [(''newStock'', JNum (Fin 0))]
   = (Inl InvalidStockAmount, storeB)"
  by (simp_all add: patch_api_products_stock_def body_defs updateProductStock_def storeB_def
      parse_beyond_decimals)




section \<open>Creating a product\<close>

text \<open>
  C10, as amended. \<open>createProduct\<close> fails with \<open>ValidationError\<close> exactly when the request
  is ill-typed: the name, the purchase price or the selling price is absent or not a
  string, or the stock is present and not a string; the store is then unchanged. A
  well-typed request is stored as sent: prices and stock are not checked against zero and
  the name may be empty.
\<close>

theorem createProduct_validation:
  "(fst (post_api_products s uid now b) = Inl ValidationError
      \<longleftrightarrow> \<not> (z_string (field b ''name'') \<and> z_string (field b ''purchasePrice'')
             \<and> z_string (field b ''sellingPrice'')
             \<and> (field b ''stock'' = JUndefined \<or> z_string (field b ''stock''))))
   \<and> (fst (post_api_products s uid now b) = Inl ValidationError
        \<longrightarrow> snd (post_api_products s uid now b) = s)
   \<and> (z_string (field b ''name'') \<and> z_string (field b ''purchasePrice'')
        \<and> z_string (field b ''sellingPrice'')
        \<and> (field b ''stock'' = JUndefined \<or> z_string (field b ''stock''))
        \<longrightarrow> post_api_products s uid now b =
            (Inr \<lparr>name = the_string (field b ''name''),
                   purchasePrice = field b ''purchasePrice'',
                   sellingPrice = field b ''sellingPrice'', stock = field b ''stock'',
                   product_id = uid, createdAt = now\<rparr>,
             s\<lparr>products := AList.update uid
                  \<lparr>name = the_string (field b ''name''),
                   purchasePrice = field b ''purchasePrice'',
                   sellingPrice = field b ''sellingPrice'', stock = field b ''stock'',
                   product_id = uid, createdAt = now\<rparr> (products s)\<rparr>))"
  by (simp add: post_api_products_def schema_defs createProduct_def Let_def)

theorem createProduct_validation_witness:
  "post_api_products MemStorage (str ''p1'') hour17
      [(''name'', JStr (str ''apples'')), (''purchasePrice'', JNum (Fin 2)),
       (''sellingPrice'', JStr (str ''3.00''))]
     = (Inl ValidationError, MemStorage)
   \<and> post_api_products MemStorage (str ''p1'') hour17 (productBody ''apples'' ''2.00'' ''3.00'' ''100'')
     = (Inr apples, storeA)"
  using createProduct_validation [of MemStorage "str ''p1''" hour17
      "[(''name'', JStr (str ''apples'')), (''purchasePrice'', JNum (Fin 2)),
        (''sellingPrice'', JStr (str ''3.00''))]"]
    createProduct_validation [of MemStorage "str ''p1''" hour17
      "productBody ''apples'' ''2.00'' ''3.00'' ''100''"]
  by (simp add: body_defs prod_eq_iff MemStorage_def apples_def storeA_def)

text \<open>C10 as stated fails: a request with an empty name, the purchase price -1, the
  selling price 0 and the stock -5 adds the product to the store.\<close>

theorem createProduct_counterexample:
  "post_api_products MemStorage (str ''p1'') hour17 (productBody [] ''-1'' ''0'' ''-5'')
     = (Inr productBad, \<lparr>products = [(str ''p1'', productBad)], sales = [], dailyReports = []\<rparr>)
   \<and> name productBad = []
   \<and> parseFloat (purchasePrice productBad) = Fin (- 1)
   \<and> parseFloat (sellingPrice productBad) = Fin 0
   \<and> parseFloat (stock productBad) = Fin (- 5)"
  by (simp add: post_api_products_def schema_defs body_defs createProduct_def Let_def
      MemStorage_def productBad_def)

end
